theory Spec2Isabelle
  imports Complex_Main
begin

section \<open>The metric primitives the exporter writes to\<close>

text \<open>
  The exporter publishes through gauges of the Prometheus client library. A plain gauge
  holds one \<open>float64\<close>; a gauge vector holds one gauge per tuple of label values, created
  on first use by \<open>WithLabelValues\<close> and all dropped by \<open>Reset\<close>. The exporter only ever
  stores values it decoded from JSON or the constants 0 and 1 and never computes with them,
  so a gauge value is modelled as a real number.
\<close>

type_synonym Gauge = real
type_synonym GaugeVec = "string list \<rightharpoonup> real"

definition Set_gauge :: "real \<Rightarrow> Gauge \<Rightarrow> Gauge" where
  "Set_gauge v g = v"

definition Reset :: "GaugeVec \<Rightarrow> GaugeVec" where
  "Reset m = Map.empty"

definition WithLabelValues_Set :: "string list \<Rightarrow> real \<Rightarrow> GaugeVec \<Rightarrow> GaugeVec" where
  "WithLabelValues_Set lvs v m = m(lvs \<mapsto> v)"

section \<open>Data model\<close>

record Exporter =
  URI :: string
  up :: Gauge
  totalSlots :: Gauge
  maxSession :: Gauge
  sessionCount :: Gauge
  sessionQueueSize :: Gauge
  version :: GaugeVec
  nodeCount :: Gauge
  nodeStatus :: GaugeVec
  nodeMaxSession :: GaugeVec
  nodeSlotCount :: GaugeVec
  nodeSessionCount :: GaugeVec
  nodeVersion :: GaugeVec

record HubResponseNode =
  Id :: string
  Uri :: string
  Status :: string
  MaxSession :: real
  SlotCount :: real
  SessionCount :: real
  Version :: string

record Grid =
  TotalSlots :: real
  MaxSession :: real
  SessionCount :: real
  SessionQueueSize :: real
  NodeCount :: real
  Version :: string

record NodesInfo =
  Nodes :: "HubResponseNode list"

record Data =
  Grid :: Grid
  NodesInfo :: NodesInfo

record hubResponse =
  Data :: Data

text \<open>
  Every return site of \<open>fetch\<close> that hands back an error, and the decoding error of
  \<open>scrape\<close>, is one constructor; the string is the text of the library's error, or the
  status line for the error \<open>fetch\<close> builds itself.
\<close>

datatype error =
    NewRequestError string
  | DoError string
  | UnexpectedStatus string
  | ReadAllError string
  | UnmarshalError string

fun Error :: "error \<Rightarrow> string" where
  "Error (NewRequestError msg) = msg"
| "Error (DoError msg) = msg"
| "Error (UnexpectedStatus status) = ''unexpected HTTP status: '' @ status"
| "Error (ReadAllError msg) = msg"
| "Error (UnmarshalError msg) = msg"

datatype level = InfoLevel | ErrorLevel

type_synonym log = "(level \<times> string) list"

record Request =
  Method :: string
  URL :: string
  Payload :: string
  Header :: "(string \<times> string) list"

text \<open>
  A response as \<open>fetch\<close> reads it: the status code, the status line, and what
  \<open>io.ReadAll\<close> makes of the body (the bytes, or the text of a read error).
\<close>

record Response =
  StatusCode :: int
  Status :: string
  Body :: "string + string"

text \<open>
  What lies outside the program: whether \<open>http.NewRequest\<close> accepts the method and URL
  (\<open>None\<close>) or rejects them with an error text, what the HTTP client, with its configured
  timeout, answers to a request, and what \<open>json.Unmarshal\<close> makes of a body. As in Go,
  \<open>Unmarshal\<close> hands back the target structure, filled as far as it got, together with
  the error, if any.
\<close>

record env =
  NewRequest :: "string \<Rightarrow> string \<Rightarrow> string option"
  Do :: "Request \<Rightarrow> string + Response"
  Unmarshal :: "string \<Rightarrow> hubResponse \<times> string option"

section \<open>The exporter\<close>

definition NewExporter :: "string \<Rightarrow> Exporter \<times> log" where
  "NewExporter uri =
    (\<lparr>URI = uri, up = 0, totalSlots = 0, maxSession = 0, sessionCount = 0,
      sessionQueueSize = 0, version = Map.empty, nodeCount = 0,
      nodeStatus = Map.empty, nodeMaxSession = Map.empty, nodeSlotCount = Map.empty,
      nodeSessionCount = Map.empty, nodeVersion = Map.empty\<rparr>,
     [(InfoLevel, ''Collecting data from: '' @ uri)])"

definition query :: string where
  \<open>query = ''{\<newline>        "query": "{\<newline>            grid {totalSlots, maxSession, sessionCount, sessionQueueSize, nodeCount, version },\<newline>            nodesInfo { nodes { id, uri, status, maxSession, slotCount, sessionCount, version } }\<newline>        }"\<newline>    }''\<close>

definition fetch :: "env \<Rightarrow> Exporter \<Rightarrow> (error + string) \<times> log" where
  "fetch w e =
    (case NewRequest w ''POST'' (URI e @ ''/graphql'') of
       Some msg \<Rightarrow>
         (Inl (NewRequestError msg), [(ErrorLevel, ''Failed to create request: '' @ msg)])
     | None \<Rightarrow>
         let req = \<lparr>Method = ''POST'', URL = URI e @ ''/graphql'', Payload = query,
                    Header = []\<rparr>;
             req = req\<lparr>Header := Header req @ [(''Content-Type'', ''application/json'')]\<rparr>
         in (case Do w req of
               Inl msg \<Rightarrow>
                 (Inl (DoError msg), [(ErrorLevel, ''Failed to execute request: '' @ msg)])
             | Inr resp \<Rightarrow>
                 if StatusCode resp \<noteq> 200 then
                   (Inl (UnexpectedStatus (Response.Status resp)),
                    [(ErrorLevel, ''Unexpected HTTP status: '' @ Response.Status resp)])
                 else
                   (case Body resp of
                      Inl msg \<Rightarrow>
                        (Inl (ReadAllError msg),
                         [(ErrorLevel, ''Failed to read response body: '' @ msg)])
                    | Inr body \<Rightarrow> (Inr body, []))))"

text \<open>The loop of \<open>scrape\<close> over the decoded nodes, in the order of the snapshot.\<close>

fun scrape_nodes :: "HubResponseNode list \<Rightarrow> Exporter \<Rightarrow> Exporter" where
  "scrape_nodes [] e = e"
| "scrape_nodes (n # ns) e =
    (let e = e\<lparr>nodeStatus := WithLabelValues_Set
                  [HubResponseNode.Id n, Uri n, HubResponseNode.Status n] 1.0 (nodeStatus e)\<rparr>;
         e = e\<lparr>nodeMaxSession := WithLabelValues_Set
                  [HubResponseNode.Id n, Uri n] (HubResponseNode.MaxSession n) (nodeMaxSession e)\<rparr>;
         e = e\<lparr>nodeSlotCount := WithLabelValues_Set
                  [HubResponseNode.Id n, Uri n] (SlotCount n) (nodeSlotCount e)\<rparr>;
         e = e\<lparr>nodeSessionCount := WithLabelValues_Set
                  [HubResponseNode.Id n, Uri n] (HubResponseNode.SessionCount n) (nodeSessionCount e)\<rparr>;
         e = e\<lparr>nodeVersion := WithLabelValues_Set
                  [HubResponseNode.Id n, Uri n, HubResponseNode.Version n] 1.0 (nodeVersion e)\<rparr>
     in scrape_nodes ns e)"

definition scrape :: "env \<Rightarrow> Exporter \<Rightarrow> Exporter \<times> log" where
  "scrape w e =
    (case fetch w e of
       (Inl err, lg) \<Rightarrow>
         let e = e\<lparr>up := Set_gauge 0 (up e)\<rparr>;
             lg = lg @ [(ErrorLevel, ''Error scraping Selenium Grid: '' @ Error err)];
             e = e\<lparr>nodeStatus := Reset (nodeStatus e)\<rparr>;
             e = e\<lparr>nodeMaxSession := Reset (nodeMaxSession e)\<rparr>;
             e = e\<lparr>nodeSlotCount := Reset (nodeSlotCount e)\<rparr>;
             e = e\<lparr>nodeSessionCount := Reset (nodeSessionCount e)\<rparr>;
             e = e\<lparr>nodeVersion := Reset (nodeVersion e)\<rparr>
         in (e, lg)
     | (Inr body, lg) \<Rightarrow>
         let e = e\<lparr>up := Set_gauge 1 (up e)\<rparr>;
             lg = lg @ [(InfoLevel, ''Successfully scraped Selenium Grid'')]
         in (case Unmarshal w body of
               (hResponse, Some msg) \<Rightarrow>
                 let lg = lg @ [(ErrorLevel, ''Error decoding Selenium Grid response: ''
                                  @ Error (UnmarshalError msg))];
                     e = e\<lparr>up := Set_gauge 0 (up e)\<rparr>;
                     e = e\<lparr>nodeStatus := Reset (nodeStatus e)\<rparr>;
                     e = e\<lparr>nodeMaxSession := Reset (nodeMaxSession e)\<rparr>;
                     e = e\<lparr>nodeSlotCount := Reset (nodeSlotCount e)\<rparr>;
                     e = e\<lparr>nodeSessionCount := Reset (nodeSessionCount e)\<rparr>;
                     e = e\<lparr>nodeVersion := Reset (nodeVersion e)\<rparr>
                 in (e, lg)
             | (hResponse, None) \<Rightarrow>
                 let grid = Grid (Data hResponse);
                     e = e\<lparr>totalSlots := Set_gauge (TotalSlots grid) (totalSlots e)\<rparr>;
                     e = e\<lparr>maxSession := Set_gauge (Grid.MaxSession grid) (maxSession e)\<rparr>;
                     e = e\<lparr>sessionCount := Set_gauge (Grid.SessionCount grid) (sessionCount e)\<rparr>;
                     e = e\<lparr>sessionQueueSize :=
                            Set_gauge (SessionQueueSize grid) (sessionQueueSize e)\<rparr>;
                     e = e\<lparr>nodeCount := Set_gauge (NodeCount grid) (nodeCount e)\<rparr>;
                     e = e\<lparr>version :=
                            WithLabelValues_Set [Grid.Version grid] 1.0 (version e)\<rparr>;
                     e = e\<lparr>nodeStatus := Reset (nodeStatus e)\<rparr>;
                     e = e\<lparr>nodeMaxSession := Reset (nodeMaxSession e)\<rparr>;
                     e = e\<lparr>nodeSlotCount := Reset (nodeSlotCount e)\<rparr>;
                     e = e\<lparr>nodeSessionCount := Reset (nodeSessionCount e)\<rparr>;
                     e = e\<lparr>nodeVersion := Reset (nodeVersion e)\<rparr>
                 in (scrape_nodes (Nodes (NodesInfo (Data hResponse))) e, lg)))"


text \<open>
  \<open>Collect\<close> runs one refresh and then hands every metric to the registry: the six plain
  gauges in the order of the source, then the children of each gauge vector. A vector
  yields its children in no fixed order, so what is sent is kept as the vector itself.
\<close>

datatype metric = Scalar Gauge | Vec GaugeVec

definition Collect :: "env \<Rightarrow> Exporter \<Rightarrow> Exporter \<times> log \<times> metric list" where
  "Collect w e =
    (case scrape w e of
       (e, lg) \<Rightarrow>
         (e, lg,
          [Scalar (up e), Scalar (totalSlots e), Scalar (maxSession e), Scalar (sessionCount e),
           Scalar (sessionQueueSize e), Scalar (nodeCount e), Vec (version e),
           Vec (nodeStatus e), Vec (nodeMaxSession e), Vec (nodeSlotCount e),
           Vec (nodeSessionCount e), Vec (nodeVersion e)]))"

section \<open>Runs of refreshes and what a refresh decodes\<close>

text \<open>A run of refreshes, each against the upstream behaviour of its moment.\<close>

fun scrapes :: "env list \<Rightarrow> Exporter \<Rightarrow> Exporter" where
  "scrapes [] e = e"
| "scrapes (w # ws) e = scrapes ws (fst (scrape w e))"

text \<open>
  The snapshot a refresh decodes: \<open>None\<close> when the fetch fails or the body does not
  decode, following the two error tests of \<open>scrape\<close>.
\<close>

definition decoded :: "env \<Rightarrow> Exporter \<Rightarrow> hubResponse option" where
  "decoded w e =
    (case fst (fetch w e) of
       Inl err \<Rightarrow> None
     | Inr body \<Rightarrow>
         (case Unmarshal w body of
            (hResponse, Some msg) \<Rightarrow> None
          | (hResponse, None) \<Rightarrow> Some hResponse))"

fun failing_run :: "env list \<Rightarrow> Exporter \<Rightarrow> bool" where
  "failing_run [] e = True"
| "failing_run (w # ws) e = (decoded w e = None \<and> failing_run ws (fst (scrape w e)))"

text \<open>The state a failed refresh leaves: \<open>up\<close> at 0 and the five node vectors empty.\<close>

definition cleared :: "Exporter \<Rightarrow> Exporter" where
  "cleared e = e\<lparr>up := 0, nodeStatus := Map.empty, nodeMaxSession := Map.empty,
     nodeSlotCount := Map.empty, nodeSessionCount := Map.empty, nodeVersion := Map.empty\<rparr>"

text \<open>
  The state of a successful refresh before its loop over the nodes: the grid gauges of the
  snapshot, the snapshot's version added to the version vector, the node vectors empty.
\<close>

definition grid_published :: "hubResponse \<Rightarrow> Exporter \<Rightarrow> Exporter" where
  "grid_published r e = e\<lparr>up := 1,
     totalSlots := TotalSlots (Grid (Data r)),
     maxSession := Grid.MaxSession (Grid (Data r)),
     sessionCount := Grid.SessionCount (Grid (Data r)),
     sessionQueueSize := SessionQueueSize (Grid (Data r)),
     nodeCount := NodeCount (Grid (Data r)),
     version := (version e)([Grid.Version (Grid (Data r))] \<mapsto> 1),
     nodeStatus := Map.empty, nodeMaxSession := Map.empty,
     nodeSlotCount := Map.empty, nodeSessionCount := Map.empty, nodeVersion := Map.empty\<rparr>"

text \<open>Storing one labelled value per node, in the order of the list, into a vector.\<close>

definition publish_all ::
  "(HubResponseNode \<Rightarrow> string list) \<Rightarrow> (HubResponseNode \<Rightarrow> real) \<Rightarrow> HubResponseNode list
    \<Rightarrow> GaugeVec \<Rightarrow> GaugeVec" where
  "publish_all key val ns m = foldl (\<lambda>m n. m(key n \<mapsto> val n)) m ns"

section \<open>The node metric set a snapshot stands for\<close>

text \<open>
  The specification's reading of the per-node metrics, independent of the loop: a tag
  vector holds 1 at the label tuple of every node of the snapshot and nothing else; a value
  vector holds, at each (id, uri) of the snapshot, the value of the last node carrying that
  pair, and nothing else.
\<close>

definition id_uri :: "HubResponseNode \<Rightarrow> string list" where
  "id_uri n = [HubResponseNode.Id n, Uri n]"

definition id_uri_status :: "HubResponseNode \<Rightarrow> string list" where
  "id_uri_status n = [HubResponseNode.Id n, Uri n, HubResponseNode.Status n]"

definition id_uri_version :: "HubResponseNode \<Rightarrow> string list" where
  "id_uri_version n = [HubResponseNode.Id n, Uri n, HubResponseNode.Version n]"

definition tags_of :: "(HubResponseNode \<Rightarrow> string list) \<Rightarrow> HubResponseNode list \<Rightarrow> GaugeVec" where
  "tags_of key ns k = (if k \<in> key ` set ns then Some 1 else None)"

definition values_of ::
  "(HubResponseNode \<Rightarrow> string list) \<Rightarrow> (HubResponseNode \<Rightarrow> real) \<Rightarrow> HubResponseNode list
    \<Rightarrow> GaugeVec" where
  "values_of key val ns k = map_option val (find (\<lambda>n. key n = k) (rev ns))"

type_synonym nodeMetricSet = "GaugeVec \<times> GaugeVec \<times> GaugeVec \<times> GaugeVec \<times> GaugeVec"

definition nodeMetricSet :: "Exporter \<Rightarrow> nodeMetricSet" where
  "nodeMetricSet e =
    (nodeStatus e, nodeMaxSession e, nodeSlotCount e, nodeSessionCount e, nodeVersion e)"

definition snapshot_nodeMetricSet :: "HubResponseNode list \<Rightarrow> nodeMetricSet" where
  "snapshot_nodeMetricSet ns =
    (tags_of id_uri_status ns,
     values_of id_uri HubResponseNode.MaxSession ns,
     values_of id_uri SlotCount ns,
     values_of id_uri HubResponseNode.SessionCount ns,
     tags_of id_uri_version ns)"

definition empty_nodeMetricSet :: nodeMetricSet where
  "empty_nodeMetricSet = (Map.empty, Map.empty, Map.empty, Map.empty, Map.empty)"

section \<open>Upstream behaviours used as concrete inputs\<close>

definition node_n1 :: HubResponseNode where
  "node_n1 = \<lparr>Id = ''n1'', Uri = ''http://10.0.1.1:5555'', Status = ''UP'', MaxSession = 8,
     SlotCount = 24, SessionCount = 0, Version = ''4.1.0''\<rparr>"

definition snapshot :: "string \<Rightarrow> HubResponseNode list \<Rightarrow> hubResponse" where
  "snapshot v ns =
    \<lparr>Data = \<lparr>Grid = \<lparr>TotalSlots = 72, MaxSession = 24, SessionCount = 0,
                       SessionQueueSize = 0, NodeCount = 1, Version = v\<rparr>,
             NodesInfo = \<lparr>Nodes = ns\<rparr>\<rparr>\<rparr>"

definition snapshot_body :: "string \<Rightarrow> string" where
  \<open>snapshot_body v = ''{"data":{"grid":{"totalSlots":72,"maxSession":24,"sessionCount":0,"sessionQueueSize":0,"nodeCount":1,"version":"'' @ v @ ''"},"nodesInfo":{"nodes":[{"id":"n1","uri":"http://10.0.1.1:5555","status":"UP","maxSession":8,"slotCount":24,"sessionCount":0,"version":"4.1.0"}]}}}''\<close>

text \<open>The zero value of \<open>hubResponse\<close>, which \<open>Unmarshal\<close> starts from.\<close>

definition zero_hubResponse :: hubResponse where
  "zero_hubResponse =
    \<lparr>Data = \<lparr>Grid = \<lparr>TotalSlots = 0, MaxSession = 0, SessionCount = 0,
                       SessionQueueSize = 0, NodeCount = 0, Version = []\<rparr>,
             NodesInfo = \<lparr>Nodes = []\<rparr>\<rparr>\<rparr>"

text \<open>A decoder that knows one document and rejects every other body.\<close>

definition decodes_only :: "string \<Rightarrow> hubResponse \<Rightarrow> string \<Rightarrow> hubResponse \<times> string option" where
  "decodes_only doc r body =
    (if body = doc then (r, None)
     else (zero_hubResponse, Some ''invalid character looking for beginning of value''))"

text \<open>An upstream that answers every request with the given status line and body.\<close>

definition answering :: "int \<Rightarrow> string \<Rightarrow> string \<Rightarrow> env" where
  "answering code status body =
    \<lparr>NewRequest = (\<lambda>method url. None),
     Do = (\<lambda>req. Inr \<lparr>StatusCode = code, Status = status, Body = Inr body\<rparr>),
     Unmarshal = decodes_only (snapshot_body ''4.1.0'') (snapshot ''4.1.0'' [node_n1])\<rparr>"

text \<open>A grid of the given version with the single node \<open>n1\<close>, answering 200.\<close>

definition grid_up :: "string \<Rightarrow> env" where
  "grid_up v =
    \<lparr>NewRequest = (\<lambda>method url. None),
     Do = (\<lambda>req. Inr \<lparr>StatusCode = 200, Status = ''200 OK'', Body = Inr (snapshot_body v)\<rparr>),
     Unmarshal = decodes_only (snapshot_body v) (snapshot v [node_n1])\<rparr>"

text \<open>An upstream that refuses the connection.\<close>

definition grid_down :: env where
  "grid_down =
    \<lparr>NewRequest = (\<lambda>method url. None),
     Do = (\<lambda>req. Inl ''connection refused''),
     Unmarshal = decodes_only (snapshot_body ''4.1.0'') (snapshot ''4.1.0'' [node_n1])\<rparr>"

text \<open>
  A grid answering 200 with a document that names the version and nothing else: no numeric
  field, no nodes. \<open>json.Unmarshal\<close> leaves a field of the target structure that has no
  key in the document at its zero value and returns no error, so this body decodes.
\<close>

definition sparse_body :: string where
  \<open>sparse_body = ''{"data":{"grid":{"version":"4.2.0"}}}''\<close>

definition sparse_response :: hubResponse where
  "sparse_response =
    \<lparr>Data = \<lparr>Grid = \<lparr>TotalSlots = 0, MaxSession = 0, SessionCount = 0,
                       SessionQueueSize = 0, NodeCount = 0, Version = ''4.2.0''\<rparr>,
             NodesInfo = \<lparr>Nodes = []\<rparr>\<rparr>\<rparr>"

definition grid_sparse :: env where
  "grid_sparse =
    \<lparr>NewRequest = (\<lambda>method url. None),
     Do = (\<lambda>req. Inr \<lparr>StatusCode = 200, Status = ''200 OK'', Body = Inr sparse_body\<rparr>),
     Unmarshal = decodes_only sparse_body sparse_response\<rparr>"

definition fresh :: Exporter where
  "fresh = fst (NewExporter ''http://grid.local'')"

section \<open>The writes of a refresh, one at a time\<close>

text \<open>
  Each call on a gauge or a gauge vector is atomic in the client library, and \<open>Collect\<close>
  takes no lock around \<open>scrape\<close>. The single writes of one refresh, in program order,
  are therefore what two refreshes running at once can interleave.
\<close>

datatype gauge_op =
    Set_up real
  | Set_totalSlots real
  | Set_maxSession real
  | Set_sessionCount real
  | Set_sessionQueueSize real
  | Set_nodeCount real
  | Set_version "string list" real
  | Reset_nodeStatus
  | Reset_nodeMaxSession
  | Reset_nodeSlotCount
  | Reset_nodeSessionCount
  | Reset_nodeVersion
  | Set_nodeStatus "string list" real
  | Set_nodeMaxSession "string list" real
  | Set_nodeSlotCount "string list" real
  | Set_nodeSessionCount "string list" real
  | Set_nodeVersion "string list" real

fun perform :: "gauge_op \<Rightarrow> Exporter \<Rightarrow> Exporter" where
  "perform (Set_up v) e = e\<lparr>up := Set_gauge v (up e)\<rparr>"
| "perform (Set_totalSlots v) e = e\<lparr>totalSlots := Set_gauge v (totalSlots e)\<rparr>"
| "perform (Set_maxSession v) e = e\<lparr>maxSession := Set_gauge v (maxSession e)\<rparr>"
| "perform (Set_sessionCount v) e = e\<lparr>sessionCount := Set_gauge v (sessionCount e)\<rparr>"
| "perform (Set_sessionQueueSize v) e = e\<lparr>sessionQueueSize := Set_gauge v (sessionQueueSize e)\<rparr>"
| "perform (Set_nodeCount v) e = e\<lparr>nodeCount := Set_gauge v (nodeCount e)\<rparr>"
| "perform (Set_version lvs v) e = e\<lparr>version := WithLabelValues_Set lvs v (version e)\<rparr>"
| "perform Reset_nodeStatus e = e\<lparr>nodeStatus := Reset (nodeStatus e)\<rparr>"
| "perform Reset_nodeMaxSession e = e\<lparr>nodeMaxSession := Reset (nodeMaxSession e)\<rparr>"
| "perform Reset_nodeSlotCount e = e\<lparr>nodeSlotCount := Reset (nodeSlotCount e)\<rparr>"
| "perform Reset_nodeSessionCount e = e\<lparr>nodeSessionCount := Reset (nodeSessionCount e)\<rparr>"
| "perform Reset_nodeVersion e = e\<lparr>nodeVersion := Reset (nodeVersion e)\<rparr>"
| "perform (Set_nodeStatus lvs v) e = e\<lparr>nodeStatus := WithLabelValues_Set lvs v (nodeStatus e)\<rparr>"
| "perform (Set_nodeMaxSession lvs v) e =
     e\<lparr>nodeMaxSession := WithLabelValues_Set lvs v (nodeMaxSession e)\<rparr>"
| "perform (Set_nodeSlotCount lvs v) e =
     e\<lparr>nodeSlotCount := WithLabelValues_Set lvs v (nodeSlotCount e)\<rparr>"
| "perform (Set_nodeSessionCount lvs v) e =
     e\<lparr>nodeSessionCount := WithLabelValues_Set lvs v (nodeSessionCount e)\<rparr>"
| "perform (Set_nodeVersion lvs v) e =
     e\<lparr>nodeVersion := WithLabelValues_Set lvs v (nodeVersion e)\<rparr>"

definition run_ops :: "gauge_op list \<Rightarrow> Exporter \<Rightarrow> Exporter" where
  "run_ops ops e = fold perform ops e"

definition reset_ops :: "gauge_op list" where
  "reset_ops = [Reset_nodeStatus, Reset_nodeMaxSession, Reset_nodeSlotCount,
     Reset_nodeSessionCount, Reset_nodeVersion]"

definition node_ops :: "HubResponseNode \<Rightarrow> gauge_op list" where
  "node_ops n =
    [Set_nodeStatus [HubResponseNode.Id n, Uri n, HubResponseNode.Status n] 1.0,
     Set_nodeMaxSession [HubResponseNode.Id n, Uri n] (HubResponseNode.MaxSession n),
     Set_nodeSlotCount [HubResponseNode.Id n, Uri n] (SlotCount n),
     Set_nodeSessionCount [HubResponseNode.Id n, Uri n] (HubResponseNode.SessionCount n),
     Set_nodeVersion [HubResponseNode.Id n, Uri n, HubResponseNode.Version n] 1.0]"

definition scrape_ops :: "env \<Rightarrow> Exporter \<Rightarrow> gauge_op list" where
  "scrape_ops w e =
    (case fetch w e of
       (Inl err, lg) \<Rightarrow> Set_up 0 # reset_ops
     | (Inr body, lg) \<Rightarrow>
         Set_up 1 #
         (case Unmarshal w body of
            (hResponse, Some msg) \<Rightarrow> Set_up 0 # reset_ops
          | (hResponse, None) \<Rightarrow>
              let grid = Grid (Data hResponse) in
              [Set_totalSlots (TotalSlots grid), Set_maxSession (Grid.MaxSession grid),
               Set_sessionCount (Grid.SessionCount grid),
               Set_sessionQueueSize (SessionQueueSize grid), Set_nodeCount (NodeCount grid),
               Set_version [Grid.Version grid] 1.0]
              @ reset_ops
              @ concat (map node_ops (Nodes (NodesInfo (Data hResponse))))))"

definition torn_schedule :: "gauge_op list" where
  "torn_schedule =
    [Set_up 1,
     Set_up 0, Reset_nodeStatus, Reset_nodeMaxSession, Reset_nodeSlotCount,
     Reset_nodeSessionCount, Reset_nodeVersion,
     Set_totalSlots 72, Set_maxSession 24, Set_sessionCount 0, Set_sessionQueueSize 0,
     Set_nodeCount 1, Set_version [''4.1.0''] 1,
     Reset_nodeStatus, Reset_nodeMaxSession, Reset_nodeSlotCount,
     Reset_nodeSessionCount, Reset_nodeVersion,
     Set_nodeStatus [''n1'', ''http://10.0.1.1:5555'', ''UP''] 1,
     Set_nodeMaxSession [''n1'', ''http://10.0.1.1:5555''] 8,
     Set_nodeSlotCount [''n1'', ''http://10.0.1.1:5555''] 24,
     Set_nodeSessionCount [''n1'', ''http://10.0.1.1:5555''] 0,
     Set_nodeVersion [''n1'', ''http://10.0.1.1:5555'', ''4.1.0''] 1]"

section \<open>The loop over the nodes in closed form\<close>

lemma publish_all_Nil: "publish_all key val [] m = m"
  by (simp add: publish_all_def)

lemma publish_all_Cons:
  "publish_all key val (n # ns) m = publish_all key val ns (m(key n \<mapsto> val n))"
  by (simp add: publish_all_def)

lemma publish_all_snoc:
  "publish_all key val (ns @ [n]) m = (publish_all key val ns m)(key n \<mapsto> val n)"
  by (simp add: publish_all_def)

text \<open>A later node with the same labels overwrites an earlier one.\<close>

lemma publish_all_lookup:
  "publish_all key val ns m k =
     (case find (\<lambda>n. key n = k) (rev ns) of Some n \<Rightarrow> Some (val n) | None \<Rightarrow> m k)"
proof (induction ns rule: rev_induct)
  case Nil
  show ?case by (simp add: publish_all_Nil)
next
  case (snoc n ns)
  show ?case
  proof (cases "key n = k")
    case True
    then show ?thesis by (simp add: publish_all_snoc)
  next
    case False
    then show ?thesis by (simp add: publish_all_snoc snoc.IH)
  qed
qed

lemma find_Some_holds: "find P xs = Some x \<Longrightarrow> x \<in> set xs \<and> P x"
  by (induction xs) (auto split: if_splits)

lemma publish_all_values: "publish_all key val ns Map.empty = values_of key val ns"
proof (rule ext)
  fix k
  show "publish_all key val ns Map.empty k = values_of key val ns k"
    by (simp add: publish_all_lookup values_of_def split: option.splits)
qed

lemma publish_all_tags: "publish_all key (\<lambda>n. 1) ns Map.empty = tags_of key ns"
proof (rule ext)
  fix k
  show "publish_all key (\<lambda>n. 1) ns Map.empty k = tags_of key ns k"
  proof (cases "find (\<lambda>n. key n = k) (rev ns)")
    case None
    then have "k \<notin> key ` set ns" by (auto simp: find_None_iff)
    with None show ?thesis by (simp add: publish_all_lookup tags_of_def)
  next
    case (Some n)
    then have "n \<in> set ns \<and> key n = k" using find_Some_holds [OF Some] by simp
    then have "k \<in> key ` set ns" by auto
    with Some show ?thesis by (simp add: publish_all_lookup tags_of_def)
  qed
qed

text \<open>The labels a snapshot publishes are exactly those of its nodes.\<close>

lemma dom_tags_of: "dom (tags_of key ns) = key ` set ns"
  by (auto simp: tags_of_def dom_def split: if_splits)

lemma dom_values_of: "dom (values_of key val ns) = key ` set ns"
proof -
  have "dom (values_of key val ns) = dom (publish_all key (\<lambda>n. 1) ns Map.empty)"
    by (auto simp: publish_all_lookup values_of_def dom_def split: option.splits)
  then show ?thesis by (simp add: publish_all_tags dom_tags_of)
qed

lemma values_of_one: "values_of key (\<lambda>n. 1) ns = tags_of key ns"
  using publish_all_values [of key "\<lambda>n. 1" ns] publish_all_tags [of key ns] by simp

lemma scrape_nodes_step:
  "scrape_nodes (n # ns) e = scrape_nodes ns (e\<lparr>
     nodeStatus := (nodeStatus e)(id_uri_status n \<mapsto> 1),
     nodeMaxSession := (nodeMaxSession e)(id_uri n \<mapsto> HubResponseNode.MaxSession n),
     nodeSlotCount := (nodeSlotCount e)(id_uri n \<mapsto> SlotCount n),
     nodeSessionCount := (nodeSessionCount e)(id_uri n \<mapsto> HubResponseNode.SessionCount n),
     nodeVersion := (nodeVersion e)(id_uri_version n \<mapsto> 1)\<rparr>)"
  by (simp add: Let_def WithLabelValues_Set_def id_uri_def id_uri_status_def id_uri_version_def)

lemma scrape_nodes_eq:
  "scrape_nodes ns e = e\<lparr>
     nodeStatus := publish_all id_uri_status (\<lambda>n. 1) ns (nodeStatus e),
     nodeMaxSession := publish_all id_uri HubResponseNode.MaxSession ns (nodeMaxSession e),
     nodeSlotCount := publish_all id_uri SlotCount ns (nodeSlotCount e),
     nodeSessionCount := publish_all id_uri HubResponseNode.SessionCount ns (nodeSessionCount e),
     nodeVersion := publish_all id_uri_version (\<lambda>n. 1) ns (nodeVersion e)\<rparr>"
proof (induction ns arbitrary: e)
  case Nil
  show ?case by (simp add: publish_all_Nil)
next
  case (Cons n ns)
  show ?case
    unfolding scrape_nodes_step Cons.IH publish_all_Cons by simp
qed

section \<open>The two outcomes of a refresh\<close>

lemma scrape_failed:
  assumes "decoded w e = None"
  shows "fst (scrape w e) = cleared e"
proof (cases "fetch w e")
  case (Pair res lg)
  show ?thesis
  proof (cases res)
    case (Inl err)
    with Pair show ?thesis
      by (simp add: scrape_def cleared_def Let_def Reset_def Set_gauge_def)
  next
    case (Inr body)
    with Pair assms obtain r msg where "Unmarshal w body = (r, Some msg)"
      by (cases "Unmarshal w body") (auto simp: decoded_def split: option.splits)
    with Pair Inr show ?thesis
      by (simp add: scrape_def cleared_def Let_def Reset_def Set_gauge_def)
  qed
qed

lemma scrape_succeeded:
  assumes "decoded w e = Some r"
  shows "fst (scrape w e) = scrape_nodes (Nodes (NodesInfo (Data r))) (grid_published r e)"
proof (cases "fetch w e")
  case (Pair res lg)
  show ?thesis
  proof (cases res)
    case (Inl err)
    with Pair assms show ?thesis by (simp add: decoded_def)
  next
    case (Inr body)
    with Pair assms have "Unmarshal w body = (r, None)"
      by (cases "Unmarshal w body") (auto simp: decoded_def split: option.splits)
    with Pair Inr show ?thesis
      by (simp add: scrape_def grid_published_def Let_def Reset_def Set_gauge_def
          WithLabelValues_Set_def)
  qed
qed

text \<open>\<open>Collect\<close> leaves the exporter as its refresh left it.\<close>

lemma Collect_state: "fst (Collect w e) = fst (scrape w e)"
  by (cases "scrape w e") (simp add: Collect_def)

text \<open>A refresh reads nothing of the exporter but its URI, and never changes the URI.\<close>

lemma fetch_depends_on_URI: "URI e1 = URI e2 \<Longrightarrow> fetch w e1 = fetch w e2"
  by (simp add: fetch_def Let_def split: option.splits sum.splits)

lemma decoded_depends_on_URI: "URI e1 = URI e2 \<Longrightarrow> decoded w e1 = decoded w e2"
  by (simp add: decoded_def fetch_depends_on_URI [of e1 e2])

lemma URI_scrape: "URI (fst (scrape w e)) = URI e"
proof (cases "decoded w e")
  case None
  then show ?thesis by (simp add: scrape_failed cleared_def)
next
  case (Some r)
  then show ?thesis by (simp add: scrape_succeeded scrape_nodes_eq grid_published_def)
qed

lemma decoded_after_scrape: "decoded w' (fst (scrape w e)) = decoded w' e"
  by (rule decoded_depends_on_URI) (rule URI_scrape)

lemma scrapes_snoc: "scrapes (ws @ [w]) e = fst (scrape w (scrapes ws e))"
  by (induction ws arbitrary: e) simp_all

lemma nodeMetricSet_cleared: "nodeMetricSet (cleared e) = empty_nodeMetricSet"
  by (simp add: nodeMetricSet_def cleared_def empty_nodeMetricSet_def)

lemma nodeMetricSet_succeeded:
  "nodeMetricSet (scrape_nodes ns (grid_published r e)) = snapshot_nodeMetricSet ns"
  by (simp add: scrape_nodes_eq grid_published_def nodeMetricSet_def snapshot_nodeMetricSet_def
      publish_all_values values_of_one)

lemma version_succeeded:
  "version (scrape_nodes ns (grid_published r e)) =
     (version e)([Grid.Version (Grid (Data r))] \<mapsto> 1)"
  by (simp add: scrape_nodes_eq grid_published_def)

lemma failing_run_clears:
  "failing_run ws e \<Longrightarrow> scrapes ws e = (if ws = [] then e else cleared e)"
proof (induction ws arbitrary: e)
  case Nil
  show ?case by simp
next
  case (Cons w ws)
  from Cons.prems have f: "decoded w e = None" and r: "failing_run ws (fst (scrape w e))"
    by simp_all
  from f have s: "fst (scrape w e) = cleared e" by (rule scrape_failed)
  from Cons.IH [OF r] s show ?case by (simp add: cleared_def)
qed

section \<open>The concrete upstream behaviours\<close>

lemma fetch_grid_up: "fetch (grid_up v) e = (Inr (snapshot_body v), [])"
  by (simp add: fetch_def grid_up_def Let_def)

lemma decoded_grid_up: "decoded (grid_up v) e = Some (snapshot v [node_n1])"
  by (simp add: decoded_def fetch_grid_up) (simp add: grid_up_def decodes_only_def)

lemma fetch_grid_down: "fst (fetch grid_down e) = Inl (DoError ''connection refused'')"
  by (simp add: fetch_def grid_down_def Let_def)

lemma decoded_grid_down: "decoded grid_down e = None"
  by (simp add: decoded_def fetch_grid_down)

lemma fetch_answering:
  "fst (fetch (answering code status body) e) =
     (if code \<noteq> 200 then Inl (UnexpectedStatus status) else Inr body)"
  by (simp add: fetch_def answering_def Let_def)

lemma not_json_rejected:
  "Unmarshal (answering code status ''not json'') ''not json'' =
     (zero_hubResponse, Some ''invalid character looking for beginning of value'')"
  by (simp add: answering_def decodes_only_def snapshot_body_def)

lemma decoded_not_json: "decoded (answering 200 status ''not json'') e = None"
  by (simp add: decoded_def fetch_answering not_json_rejected)

lemma decoded_bad_status: "code \<noteq> 200 \<Longrightarrow> decoded (answering code status body) e = None"
  by (simp add: decoded_def fetch_answering)

lemma scrape_grid_up:
  "fst (scrape (grid_up v) e) = scrape_nodes [node_n1] (grid_published (snapshot v [node_n1]) e)"
  using scrape_succeeded [OF decoded_grid_up [of v e]] by (simp add: snapshot_def)

lemma version_scrape_grid_up: "version (fst (scrape (grid_up v) e)) = (version e)([v] \<mapsto> 1)"
  by (simp add: scrape_grid_up scrape_nodes_eq grid_published_def snapshot_def)

lemma fetch_grid_sparse: "fetch grid_sparse e = (Inr sparse_body, [])"
  by (simp add: fetch_def grid_sparse_def Let_def)

lemma Unmarshal_grid_sparse: "Unmarshal grid_sparse sparse_body = (sparse_response, None)"
  by (simp add: grid_sparse_def decodes_only_def)

lemma decoded_grid_sparse: "decoded grid_sparse e = Some sparse_response"
  by (simp add: decoded_def fetch_grid_sparse Unmarshal_grid_sparse)

lemma scrape_grid_sparse:
  "fst (scrape grid_sparse e) = grid_published sparse_response e"
  using scrape_succeeded [OF decoded_grid_sparse [of e]] by (simp add: sparse_response_def)

lemma version_fresh: "version fresh = Map.empty"
  by (simp add: fresh_def NewExporter_def)

lemma grid_gauges_after_grid_up:
  "totalSlots (fst (scrape (grid_up v) e)) = 72 \<and>
   maxSession (fst (scrape (grid_up v) e)) = 24 \<and>
   sessionCount (fst (scrape (grid_up v) e)) = 0 \<and>
   sessionQueueSize (fst (scrape (grid_up v) e)) = 0 \<and>
   nodeCount (fst (scrape (grid_up v) e)) = 1"
  by (simp add: scrape_grid_up scrape_nodes_eq grid_published_def snapshot_def)

section \<open>The single writes against the refresh as a whole\<close>

lemma run_node_ops:
  "fold perform (concat (map node_ops ns)) e = scrape_nodes ns e"
  by (induction ns arbitrary: e) (simp_all add: node_ops_def Let_def)

text \<open>Performed one after the other without interruption, the writes are the refresh.\<close>

lemma scrape_ops_sound: "run_ops (scrape_ops w e) e = fst (scrape w e)"
proof (cases "fetch w e")
  case (Pair res lg)
  show ?thesis
  proof (cases res)
    case (Inl err)
    with Pair show ?thesis
      by (simp add: run_ops_def scrape_ops_def scrape_def reset_ops_def Let_def)
  next
    case (Inr body)
    show ?thesis
    proof (cases "Unmarshal w body")
      case (Pair r err)
      show ?thesis
      proof (cases err)
        case None
        with \<open>fetch w e = (res, lg)\<close> Inr Pair show ?thesis
          by (simp add: run_ops_def scrape_ops_def scrape_def reset_ops_def Let_def
              run_node_ops)
      next
        case (Some msg)
        with \<open>fetch w e = (res, lg)\<close> Inr Pair show ?thesis
          by (simp add: run_ops_def scrape_ops_def scrape_def reset_ops_def Let_def)
      qed
    qed
  qed
qed

lemma overtaken_in_shuffles: "y # xs @ ys \<in> shuffles xs (y # ys)"
proof -
  have "xs @ ys \<in> shuffles xs ys"
    by (induction xs) (simp_all add: Cons_in_shuffles_leftI)
  then show ?thesis by (rule Cons_in_shuffles_rightI)
qed

lemma ops_grid_down: "scrape_ops grid_down e = Set_up 0 # reset_ops"
  using fetch_grid_down [of e] by (cases "fetch grid_down e") (simp add: scrape_ops_def)

lemma ops_grid_up:
  "scrape_ops (grid_up v) e =
     Set_up 1 # ([Set_totalSlots 72, Set_maxSession 24, Set_sessionCount 0,
       Set_sessionQueueSize 0, Set_nodeCount 1, Set_version [v] 1] @ reset_ops @
       node_ops node_n1)"
  by (simp add: scrape_ops_def fetch_grid_up)
     (simp add: grid_up_def decodes_only_def snapshot_def)

lemma torn_schedule_split:
  "torn_schedule = Set_up 1 # (Set_up 0 # reset_ops) @
     ([Set_totalSlots 72, Set_maxSession 24, Set_sessionCount 0,
       Set_sessionQueueSize 0, Set_nodeCount 1, Set_version [''4.1.0''] 1] @ reset_ops @
       node_ops node_n1)"
  by (simp add: torn_schedule_def reset_ops_def node_ops_def node_n1_def)

lemma torn_schedule_result:
  "run_ops torn_schedule fresh = (scrapes [grid_up ''4.1.0''] fresh)\<lparr>up := 0\<rparr>"
  by (simp add: scrape_grid_up scrape_nodes_eq publish_all_def grid_published_def snapshot_def
        node_n1_def id_uri_def id_uri_status_def id_uri_version_def)
     (simp add: run_ops_def torn_schedule_def fresh_def NewExporter_def Set_gauge_def
        Reset_def WithLabelValues_Set_def)

section \<open>The claims\<close>

subsection \<open>C1: node metrics and version labels after a refresh\<close>

text \<open>
  C1, as the specification states it, asks that after a failed refresh the grid version
  label set is empty. It is not: a refresh that succeeds against a grid of version 4.1.0,
  followed by one that finds the connection refused, leaves the version label 4.1.0 at 1.
\<close>

theorem version_label_survives_failed_refresh:
  "decoded grid_down (scrapes [grid_up ''4.1.0''] fresh) = None \<and>
   version (scrapes [grid_up ''4.1.0'', grid_down] fresh) [''4.1.0''] = Some 1"
  by (simp add: decoded_grid_down scrape_failed [OF decoded_grid_down] cleared_def
      version_scrape_grid_up)

text \<open>
  C1, amended: after any run of refreshes followed by one more, if that last refresh fails
  (fetch or decoding) the per-node metric set is empty and the grid version label set is
  what it was before it; if it succeeds, the per-node metric set is exactly the one the
  decoded snapshot's nodes stand for, and the grid version label set holds the snapshot's
  version with value 1.
\<close>

theorem node_metrics_follow_latest_refresh:
  "(case decoded w (scrapes ws e) of
      None \<Rightarrow>
        nodeMetricSet (scrapes (ws @ [w]) e) = empty_nodeMetricSet \<and>
        version (scrapes (ws @ [w]) e) = version (scrapes ws e)
    | Some r \<Rightarrow>
        nodeMetricSet (scrapes (ws @ [w]) e) =
          snapshot_nodeMetricSet (Nodes (NodesInfo (Data r))) \<and>
        version (scrapes (ws @ [w]) e) [Grid.Version (Grid (Data r))] = Some 1)"
proof (cases "decoded w (scrapes ws e)")
  case None
  then show ?thesis
    by (simp add: scrapes_snoc scrape_failed nodeMetricSet_cleared) (simp add: cleared_def)
next
  case (Some r)
  then show ?thesis
    by (simp add: scrapes_snoc scrape_succeeded nodeMetricSet_succeeded version_succeeded)
qed

text \<open>
  C1, both branches at concrete runs: a success followed by a refused connection, and a
  refused connection followed by a success.
\<close>

theorem node_metrics_follow_latest_refresh_witness:
  "nodeMetricSet (scrapes ([grid_up ''4.1.0''] @ [grid_down]) fresh) = empty_nodeMetricSet \<and>
   version (scrapes ([grid_up ''4.1.0''] @ [grid_down]) fresh) =
     version (scrapes [grid_up ''4.1.0''] fresh) \<and>
   nodeMetricSet (scrapes ([grid_down] @ [grid_up ''4.1.0'']) fresh) =
     snapshot_nodeMetricSet [node_n1] \<and>
   version (scrapes ([grid_down] @ [grid_up ''4.1.0'']) fresh) [''4.1.0''] = Some 1"
  using node_metrics_follow_latest_refresh
          [where w = grid_down and ws = "[grid_up ''4.1.0'']" and e = fresh]
        node_metrics_follow_latest_refresh
          [where w = "grid_up ''4.1.0''" and ws = "[grid_down]" and e = fresh]
  by (simp add: decoded_grid_down decoded_grid_up) (simp add: snapshot_def)

subsection \<open>C2: replacement of the version label\<close>

text \<open>
  C2 asks that after a successful refresh with version 4.1.0 and then one with version
  4.2.0 the grid version label set holds the single entry 4.2.0. The code never resets the
  version vector, so from a new exporter the two refreshes leave two entries: 4.1.0 and
  4.2.0, both at 1.
\<close>

theorem old_version_label_remains:
  "version (scrapes [grid_up ''4.1.0'', grid_up ''4.2.0''] fresh) =
     Map.empty([''4.1.0''] \<mapsto> 1, [''4.2.0''] \<mapsto> 1)"
  by (simp add: version_scrape_grid_up version_fresh)

subsection \<open>C3: a fetch error\<close>

text \<open>
  C3, as stated, asks that a refresh whose fetch fails leaves the grid version label set
  empty. After a success against version 4.1.0, a refresh that finds the connection
  refused still shows the label 4.1.0 at 1.
\<close>

theorem fetch_error_keeps_version_label:
  "fst (fetch grid_down (scrapes [grid_up ''4.1.0''] fresh)) =
     Inl (DoError ''connection refused'') \<and>
   version (fst (scrape grid_down (scrapes [grid_up ''4.1.0''] fresh))) [''4.1.0''] = Some 1"
  by (simp add: fetch_grid_down scrape_failed [OF decoded_grid_down] cleared_def
      version_scrape_grid_up)

text \<open>
  C3, amended: a refresh whose fetch returns an error sets \<open>up\<close> to 0 and leaves the
  per-node metric set entirely empty, whatever it held before; the grid version label set
  is left as it was.
\<close>

theorem fetch_error_clears_nodes:
  assumes "fst (fetch w e) = Inl err"
  shows "up (fst (scrape w e)) = 0 \<and>
         nodeMetricSet (fst (scrape w e)) = empty_nodeMetricSet \<and>
         version (fst (scrape w e)) = version e"
proof -
  from assms have "decoded w e = None" by (simp add: decoded_def)
  then have "fst (scrape w e) = cleared e" by (rule scrape_failed)
  then show ?thesis by (simp add: nodeMetricSet_cleared) (simp add: cleared_def)
qed

text \<open>C3 at a refused connection after one successful refresh.\<close>

theorem fetch_error_clears_nodes_witness:
  "fst (fetch grid_down (scrapes [grid_up ''4.1.0''] fresh)) =
     Inl (DoError ''connection refused'') \<and>
   up (fst (scrape grid_down (scrapes [grid_up ''4.1.0''] fresh))) = 0 \<and>
   nodeMetricSet (fst (scrape grid_down (scrapes [grid_up ''4.1.0''] fresh))) =
     empty_nodeMetricSet \<and>
   version (fst (scrape grid_down (scrapes [grid_up ''4.1.0''] fresh))) =
     Map.empty([''4.1.0''] \<mapsto> 1)"
  using fetch_error_clears_nodes [of grid_down "scrapes [grid_up ''4.1.0''] fresh"
      "DoError ''connection refused''"]
  by (simp add: fetch_grid_down version_scrape_grid_up version_fresh)

subsection \<open>C4: a body that does not decode\<close>

text \<open>
  C4, as stated, counts a body with missing numeric fields among those that fail to decode
  and asks that such a refresh ends with \<open>up\<close> at 0 and nothing of the body published. The
  target structure has plain \<open>float64\<close> fields and \<open>scrape\<close> checks no field for presence,
  so a document without them decodes: after a success against version 4.1.0 with
  \<open>totalSlots\<close> at 72, the refresh of the document that names only the version 4.2.0
  ends with \<open>up\<close> at 1, \<open>totalSlots\<close> at 0 and the version label 4.2.0 at 1.
\<close>

theorem sparse_payload_is_published:
  "fst (fetch grid_sparse (scrapes [grid_up ''4.1.0''] fresh)) = Inr sparse_body \<and>
   Unmarshal grid_sparse sparse_body = (sparse_response, None) \<and>
   totalSlots (scrapes [grid_up ''4.1.0''] fresh) = 72 \<and>
   up (fst (scrape grid_sparse (scrapes [grid_up ''4.1.0''] fresh))) = 1 \<and>
   totalSlots (fst (scrape grid_sparse (scrapes [grid_up ''4.1.0''] fresh))) = 0 \<and>
   version (fst (scrape grid_sparse (scrapes [grid_up ''4.1.0''] fresh))) [''4.2.0''] = Some 1"
proof -
  let ?e = "scrapes [grid_up ''4.1.0''] fresh"
  have "totalSlots ?e = 72"
    using grid_gauges_after_grid_up [of "''4.1.0''" fresh] by simp
  moreover have "up (fst (scrape grid_sparse ?e)) = 1 \<and>
      totalSlots (fst (scrape grid_sparse ?e)) = 0 \<and>
      version (fst (scrape grid_sparse ?e)) [''4.2.0''] = Some 1"
    by (simp add: scrape_grid_sparse grid_published_def sparse_response_def)
  ultimately show ?thesis
    by (simp add: fetch_grid_sparse Unmarshal_grid_sparse)
qed

text \<open>
  C4, amended: when \<open>json.Unmarshal\<close> returns an error for the fetched body (a document
  that is not JSON, or a value of the wrong type), the refresh leaves the exporter in
  exactly the state a fetch failure at the same state would leave it in: \<open>up\<close> at 0 and the
  node vectors empty, everything else as before. Nothing of the partly filled structure
  that \<open>Unmarshal\<close> hands back reaches a gauge. A document that is valid JSON and only
  lacks fields is not such a failure.
\<close>

theorem decode_failure_like_fetch_failure:
  assumes "fst (fetch w e) = Inr body" and "Unmarshal w body = (r, Some msg)"
    and "fst (fetch w' e) = Inl err"
  shows "fst (scrape w e) = fst (scrape w' e) \<and> fst (scrape w e) = cleared e"
proof -
  from assms(1,2) have "decoded w e = None" by (simp add: decoded_def)
  moreover from assms(3) have "decoded w' e = None" by (simp add: decoded_def)
  ultimately show ?thesis by (simp add: scrape_failed)
qed

text \<open>C4 at the body \<open>not json\<close>, against a refused connection.\<close>

theorem decode_failure_like_fetch_failure_witness:
  "fst (fetch (answering 200 ''200 OK'' ''not json'') (scrapes [grid_up ''4.1.0''] fresh)) =
     Inr ''not json'' \<and>
   Unmarshal (answering 200 ''200 OK'' ''not json'') ''not json'' =
     (zero_hubResponse, Some ''invalid character looking for beginning of value'') \<and>
   fst (fetch grid_down (scrapes [grid_up ''4.1.0''] fresh)) =
     Inl (DoError ''connection refused'') \<and>
   fst (scrape (answering 200 ''200 OK'' ''not json'') (scrapes [grid_up ''4.1.0''] fresh)) =
     fst (scrape grid_down (scrapes [grid_up ''4.1.0''] fresh)) \<and>
   fst (scrape (answering 200 ''200 OK'' ''not json'') (scrapes [grid_up ''4.1.0''] fresh)) =
     cleared (scrapes [grid_up ''4.1.0''] fresh)"
proof -
  let ?w = "answering 200 ''200 OK'' ''not json''"
  let ?e = "scrapes [grid_up ''4.1.0''] fresh"
  have h1: "fst (fetch ?w ?e) = Inr ''not json''"
    by (simp add: fetch_answering)
  have h2: "Unmarshal ?w ''not json'' =
      (zero_hubResponse, Some ''invalid character looking for beginning of value'')"
    by (rule not_json_rejected)
  have h3: "fst (fetch grid_down ?e) = Inl (DoError ''connection refused'')"
    by (rule fetch_grid_down)
  from decode_failure_like_fetch_failure [OF h1 h2 h3] h1 h2 h3 show ?thesis
    by blast
qed

subsection \<open>C5: the grid gauges across failures\<close>

text \<open>
  C5: through any run of refreshes that all fail, by fetch error or by decoding error, the
  five grid gauges \<open>totalSlots\<close>, \<open>maxSession\<close>, \<open>sessionCount\<close>, \<open>sessionQueueSize\<close> and
  \<open>nodeCount\<close> keep the values they had before the run, which are those of the last
  successful refresh.
\<close>

theorem failed_refreshes_keep_grid_gauges:
  assumes "failing_run ws e"
  shows "totalSlots (scrapes ws e) = totalSlots e \<and>
         maxSession (scrapes ws e) = maxSession e \<and>
         sessionCount (scrapes ws e) = sessionCount e \<and>
         sessionQueueSize (scrapes ws e) = sessionQueueSize e \<and>
         nodeCount (scrapes ws e) = nodeCount e"
  using failing_run_clears [OF assms] by (simp add: cleared_def)

text \<open>
  C5 after one successful refresh, through a refused connection, a body that is not JSON
  and a status 503.
\<close>

theorem failed_refreshes_keep_grid_gauges_witness:
  "failing_run [grid_down, answering 200 ''200 OK'' ''not json'',
      answering 503 ''503 Service Unavailable'' []] (scrapes [grid_up ''4.1.0''] fresh) \<and>
   totalSlots (scrapes [grid_down, answering 200 ''200 OK'' ''not json'',
      answering 503 ''503 Service Unavailable'' []] (scrapes [grid_up ''4.1.0''] fresh)) = 72 \<and>
   maxSession (scrapes [grid_down, answering 200 ''200 OK'' ''not json'',
      answering 503 ''503 Service Unavailable'' []] (scrapes [grid_up ''4.1.0''] fresh)) = 24 \<and>
   sessionCount (scrapes [grid_down, answering 200 ''200 OK'' ''not json'',
      answering 503 ''503 Service Unavailable'' []] (scrapes [grid_up ''4.1.0''] fresh)) = 0 \<and>
   sessionQueueSize (scrapes [grid_down, answering 200 ''200 OK'' ''not json'',
      answering 503 ''503 Service Unavailable'' []] (scrapes [grid_up ''4.1.0''] fresh)) = 0 \<and>
   nodeCount (scrapes [grid_down, answering 200 ''200 OK'' ''not json'',
      answering 503 ''503 Service Unavailable'' []] (scrapes [grid_up ''4.1.0''] fresh)) = 1"
proof -
  let ?ws = "[grid_down, answering 200 ''200 OK'' ''not json'',
      answering 503 ''503 Service Unavailable'' []]"
  let ?e = "scrapes [grid_up ''4.1.0''] fresh"
  have h: "failing_run ?ws ?e"
    by (simp add: decoded_grid_down decoded_not_json decoded_bad_status)
  have g: "totalSlots ?e = 72 \<and> maxSession ?e = 24 \<and> sessionCount ?e = 0 \<and>
      sessionQueueSize ?e = 0 \<and> nodeCount ?e = 1"
    using grid_gauges_after_grid_up [of "''4.1.0''" fresh] by simp
  from failed_refreshes_keep_grid_gauges [OF h] g h show ?thesis
    by presburger
qed

subsection \<open>C6: the concrete scenario\<close>

text \<open>
  C6: a new exporter whose first refresh decodes the snapshot with grid values 72, 24, 0,
  0, 1, version 4.1.0 and the single node n1 publishes \<open>up\<close> = 1, those five grid values,
  the version label 4.1.0 at 1, and for n1 the status label UP at 1, max_session 8,
  slot_count 24, session_count 0 and the version label 4.1.0 at 1, and nothing else.
\<close>

theorem concrete_scenario:
  assumes "decoded w (fst (NewExporter uri)) = Some (snapshot ''4.1.0'' [node_n1])"
  shows "fst (scrape w (fst (NewExporter uri))) =
    \<lparr>URI = uri, up = 1, totalSlots = 72, maxSession = 24, sessionCount = 0,
     sessionQueueSize = 0,
     version = Map.empty([''4.1.0''] \<mapsto> 1),
     nodeCount = 1,
     nodeStatus = Map.empty([''n1'', ''http://10.0.1.1:5555'', ''UP''] \<mapsto> 1),
     nodeMaxSession = Map.empty([''n1'', ''http://10.0.1.1:5555''] \<mapsto> 8),
     nodeSlotCount = Map.empty([''n1'', ''http://10.0.1.1:5555''] \<mapsto> 24),
     nodeSessionCount = Map.empty([''n1'', ''http://10.0.1.1:5555''] \<mapsto> 0),
     nodeVersion = Map.empty([''n1'', ''http://10.0.1.1:5555'', ''4.1.0''] \<mapsto> 1)\<rparr>"
  unfolding scrape_succeeded [OF assms]
  by (simp add: snapshot_def node_n1_def NewExporter_def Let_def grid_published_def
      WithLabelValues_Set_def)

text \<open>C6 against an upstream that serves the JSON document of the scenario.\<close>

theorem concrete_scenario_witness:
  "decoded (grid_up ''4.1.0'') (fst (NewExporter ''http://grid.local'')) =
     Some (snapshot ''4.1.0'' [node_n1]) \<and>
   fst (scrape (grid_up ''4.1.0'') (fst (NewExporter ''http://grid.local''))) =
    \<lparr>URI = ''http://grid.local'', up = 1, totalSlots = 72, maxSession = 24, sessionCount = 0,
     sessionQueueSize = 0,
     version = Map.empty([''4.1.0''] \<mapsto> 1),
     nodeCount = 1,
     nodeStatus = Map.empty([''n1'', ''http://10.0.1.1:5555'', ''UP''] \<mapsto> 1),
     nodeMaxSession = Map.empty([''n1'', ''http://10.0.1.1:5555''] \<mapsto> 8),
     nodeSlotCount = Map.empty([''n1'', ''http://10.0.1.1:5555''] \<mapsto> 24),
     nodeSessionCount = Map.empty([''n1'', ''http://10.0.1.1:5555''] \<mapsto> 0),
     nodeVersion = Map.empty([''n1'', ''http://10.0.1.1:5555'', ''4.1.0''] \<mapsto> 1)\<rparr>"
proof -
  have h: "decoded (grid_up ''4.1.0'') (fst (NewExporter ''http://grid.local'')) =
     Some (snapshot ''4.1.0'' [node_n1])"
    by (rule decoded_grid_up)
  from concrete_scenario [OF h] h show ?thesis by blast
qed

subsection \<open>C7: idempotence\<close>

text \<open>
  C7: for every exporter state and every upstream behaviour, be it a payload or a failure,
  a second refresh against the same upstream leaves the state the first one produced.
\<close>

theorem scrape_idempotent: "fst (scrape w (fst (scrape w e))) = fst (scrape w e)"
proof (cases "decoded w e")
  case None
  then have "decoded w (fst (scrape w e)) = None" by (simp add: decoded_after_scrape)
  with None show ?thesis by (simp add: scrape_failed) (simp add: cleared_def)
next
  case (Some r)
  then have "decoded w (fst (scrape w e)) = Some r" by (simp add: decoded_after_scrape)
  with Some show ?thesis
    by (simp add: scrape_succeeded) (simp add: scrape_nodes_eq grid_published_def)
qed

subsection \<open>C8: the status code\<close>

text \<open>
  C8, as stated, asks that every 2xx response yields the raw body. \<open>fetch\<close> compares the
  status code with 200 alone: a response 204, with request and transport succeeding, is an
  error.
\<close>

theorem status_204_rejected:
  "NewRequest (answering 204 ''204 No Content'' []) ''POST'' (URI fresh @ ''/graphql'') = None \<and>
   Do (answering 204 ''204 No Content'' [])
      \<lparr>Method = ''POST'', URL = URI fresh @ ''/graphql'', Payload = query,
        Header = [(''Content-Type'', ''application/json'')]\<rparr> =
     Inr \<lparr>StatusCode = 204, Status = ''204 No Content'', Body = Inr []\<rparr> \<and>
   fst (fetch (answering 204 ''204 No Content'' []) fresh) =
     Inl (UnexpectedStatus ''204 No Content'')"
  by (simp add: fetch_answering) (simp add: answering_def)

text \<open>
  C8, amended: given that the request is built and the transport answers, \<open>fetch\<close> returns
  the status error exactly when the status code is not 200: every other status, such as
  503, yields the error carrying the status line, and the refresh then clears as for any
  fetch failure; a response 200 yields the raw body when reading the body succeeds, and the
  read error otherwise.
\<close>

theorem fetch_fails_unless_200:
  assumes "NewRequest w ''POST'' (URI e @ ''/graphql'') = None"
    and "Do w \<lparr>Method = ''POST'', URL = URI e @ ''/graphql'', Payload = query,
               Header = [(''Content-Type'', ''application/json'')]\<rparr> = Inr resp"
  shows "fst (fetch w e) =
           (if StatusCode resp \<noteq> 200 then Inl (UnexpectedStatus (Response.Status resp))
            else (case Body resp of
                    Inl msg \<Rightarrow> Inl (ReadAllError msg)
                  | Inr body \<Rightarrow> Inr body)) \<and>
         (StatusCode resp \<noteq> 200 \<longrightarrow> fst (scrape w e) = cleared e)"
proof -
  from assms have f: "fst (fetch w e) =
           (if StatusCode resp \<noteq> 200 then Inl (UnexpectedStatus (Response.Status resp))
            else (case Body resp of
                    Inl msg \<Rightarrow> Inl (ReadAllError msg)
                  | Inr body \<Rightarrow> Inr body))"
    by (simp add: fetch_def Let_def split: sum.splits)
  then have "StatusCode resp \<noteq> 200 \<Longrightarrow> decoded w e = None"
    by (simp add: decoded_def)
  with f show ?thesis by (simp add: scrape_failed)
qed

text \<open>C8 at a response 503.\<close>

theorem fetch_fails_unless_200_witness:
  "NewRequest (answering 503 ''503 Service Unavailable'' []) ''POST'' (URI fresh @ ''/graphql'')
     = None \<and>
   Do (answering 503 ''503 Service Unavailable'' [])
      \<lparr>Method = ''POST'', URL = URI fresh @ ''/graphql'', Payload = query,
        Header = [(''Content-Type'', ''application/json'')]\<rparr> =
     Inr \<lparr>StatusCode = 503, Status = ''503 Service Unavailable'', Body = Inr []\<rparr> \<and>
   fst (fetch (answering 503 ''503 Service Unavailable'' []) fresh) =
     Inl (UnexpectedStatus ''503 Service Unavailable'') \<and>
   fst (scrape (answering 503 ''503 Service Unavailable'' []) fresh) = cleared fresh"
proof -
  let ?w = "answering 503 ''503 Service Unavailable'' []"
  have h1: "NewRequest ?w ''POST'' (URI fresh @ ''/graphql'') = None"
    by (simp add: answering_def)
  have h2: "Do ?w \<lparr>Method = ''POST'', URL = URI fresh @ ''/graphql'', Payload = query,
        Header = [(''Content-Type'', ''application/json'')]\<rparr> =
     Inr \<lparr>StatusCode = 503, Status = ''503 Service Unavailable'', Body = Inr []\<rparr>"
    by (simp add: answering_def)
  from fetch_fails_unless_200 [OF h1 h2] h1 h2 show ?thesis by simp
qed

subsection \<open>C9: refreshes running at once\<close>

text \<open>
  C9 asks that the writes of two concurrent refreshes never interleave. \<open>Collect\<close> calls
  \<open>scrape\<close> without taking a lock, so every interleaving of the single writes of two
  refreshes can happen. In the one below, a refresh that finds the connection refused
  overtakes a succeeding one after its first write: the exporter ends with \<open>up\<close> at 0 and
  the node n1 published, a state that neither order of the two refreshes run one after the
  other produces.
\<close>

theorem unlocked_refreshes_interleave:
  "torn_schedule \<in>
     shuffles (scrape_ops grid_down fresh) (scrape_ops (grid_up ''4.1.0'') fresh) \<and>
   up (run_ops torn_schedule fresh) = 0 \<and>
   nodeStatus (run_ops torn_schedule fresh) [''n1'', ''http://10.0.1.1:5555'', ''UP''] = Some 1 \<and>
   run_ops torn_schedule fresh \<noteq> scrapes [grid_down, grid_up ''4.1.0''] fresh \<and>
   run_ops torn_schedule fresh \<noteq> scrapes [grid_up ''4.1.0'', grid_down] fresh"
proof -
  let ?t = "run_ops torn_schedule fresh"
  let ?k = "[''n1'', ''http://10.0.1.1:5555'', ''UP'']"
  have member: "torn_schedule \<in>
      shuffles (scrape_ops grid_down fresh) (scrape_ops (grid_up ''4.1.0'') fresh)"
    unfolding ops_grid_down ops_grid_up torn_schedule_split
    by (rule overtaken_in_shuffles)
  have up_t: "up ?t = 0"
    by (simp add: torn_schedule_result)
  have st_t: "nodeStatus ?t ?k = Some 1"
    by (simp add: torn_schedule_result scrape_grid_up scrape_nodes_eq publish_all_def
        node_n1_def id_uri_status_def)
  have "up (scrapes [grid_down, grid_up ''4.1.0''] fresh) = 1"
    by (simp add: scrape_grid_up scrape_nodes_eq grid_published_def)
  with up_t have ne1: "?t \<noteq> scrapes [grid_down, grid_up ''4.1.0''] fresh"
    by auto
  have "nodeStatus (scrapes [grid_up ''4.1.0'', grid_down] fresh) ?k = None"
    by (simp add: scrape_failed [OF decoded_grid_down] cleared_def)
  with st_t have ne2: "?t \<noteq> scrapes [grid_up ''4.1.0'', grid_down] fresh"
    by auto
  from member up_t st_t ne1 ne2 show ?thesis by blast
qed

subsection \<open>C10: the state after a success depends on the payload alone\<close>

text \<open>
  C10: two refreshes that decode the same snapshot, from whatever two exporter states,
  end with the same \<open>up\<close>, the same five grid gauges and the same per-node metric set; the
  grid version label set of each is the one it had before with the snapshot's version added
  at 1, so version labels of earlier refreshes stay.
\<close>

theorem success_determined_by_payload:
  assumes "decoded w1 e1 = Some r" and "decoded w2 e2 = Some r"
  shows "up (fst (scrape w1 e1)) = up (fst (scrape w2 e2)) \<and>
         totalSlots (fst (scrape w1 e1)) = totalSlots (fst (scrape w2 e2)) \<and>
         maxSession (fst (scrape w1 e1)) = maxSession (fst (scrape w2 e2)) \<and>
         sessionCount (fst (scrape w1 e1)) = sessionCount (fst (scrape w2 e2)) \<and>
         sessionQueueSize (fst (scrape w1 e1)) = sessionQueueSize (fst (scrape w2 e2)) \<and>
         nodeCount (fst (scrape w1 e1)) = nodeCount (fst (scrape w2 e2)) \<and>
         nodeMetricSet (fst (scrape w1 e1)) = nodeMetricSet (fst (scrape w2 e2)) \<and>
         version (fst (scrape w1 e1)) = (version e1)([Grid.Version (Grid (Data r))] \<mapsto> 1) \<and>
         version (fst (scrape w2 e2)) = (version e2)([Grid.Version (Grid (Data r))] \<mapsto> 1)"
  unfolding scrape_succeeded [OF assms(1)] scrape_succeeded [OF assms(2)]
  by (simp add: nodeMetricSet_succeeded version_succeeded)
     (simp add: scrape_nodes_eq grid_published_def)

text \<open>
  C10 from a new exporter and from one that has already seen version 4.2.0: the version
  label sets differ, everything else agrees.
\<close>

theorem success_determined_by_payload_witness:
  "decoded (grid_up ''4.1.0'') fresh = Some (snapshot ''4.1.0'' [node_n1]) \<and>
   decoded (grid_up ''4.1.0'') (scrapes [grid_up ''4.2.0''] fresh) =
     Some (snapshot ''4.1.0'' [node_n1]) \<and>
   up (fst (scrape (grid_up ''4.1.0'') fresh)) =
     up (fst (scrape (grid_up ''4.1.0'') (scrapes [grid_up ''4.2.0''] fresh))) \<and>
   nodeMetricSet (fst (scrape (grid_up ''4.1.0'') fresh)) =
     nodeMetricSet (fst (scrape (grid_up ''4.1.0'') (scrapes [grid_up ''4.2.0''] fresh))) \<and>
   version (fst (scrape (grid_up ''4.1.0'') fresh)) = Map.empty([''4.1.0''] \<mapsto> 1) \<and>
   version (fst (scrape (grid_up ''4.1.0'') (scrapes [grid_up ''4.2.0''] fresh))) =
     Map.empty([''4.2.0''] \<mapsto> 1, [''4.1.0''] \<mapsto> 1)"
proof -
  let ?e2 = "scrapes [grid_up ''4.2.0''] fresh"
  have h1: "decoded (grid_up ''4.1.0'') fresh = Some (snapshot ''4.1.0'' [node_n1])"
    by (rule decoded_grid_up)
  have h2: "decoded (grid_up ''4.1.0'') ?e2 = Some (snapshot ''4.1.0'' [node_n1])"
    by (rule decoded_grid_up)
  have v1: "version fresh = Map.empty" by (rule version_fresh)
  have v2: "version ?e2 = Map.empty([''4.2.0''] \<mapsto> 1)"
    by (simp add: version_scrape_grid_up version_fresh)
  have g: "Grid.Version (Grid (Data (snapshot ''4.1.0'' [node_n1]))) = ''4.1.0''"
    by (simp add: snapshot_def)
  from success_determined_by_payload [OF h1 h2] h1 h2 show ?thesis
    unfolding v1 v2 g by blast
qed

end
